theory Spec2Isabelle
  imports Main "HOL-Library.Word"
begin

section \<open>JavaScript strings and numbers\<close>

text \<open>
  A JavaScript string is a sequence of 16-bit code units. Field values typed by the
  user and strings received from the API are values of this type. Messages and property
  names that appear as literals in the pages are kept as HOL strings.
\<close>

type_synonym jschar = "16 word"
type_synonym jsstring = "jschar list"

text \<open>The code units of an ASCII literal.\<close>

definition lit :: "string \<Rightarrow> jsstring" where
  "lit s = map (\<lambda>c. word_of_nat (of_char c)) s"

text \<open>
  White space as \<^verbatim>\<open>String.prototype.trim\<close> and \<^verbatim>\<open>parseInt\<close> understand it: the
  WhiteSpace and LineTerminator productions of ECMAScript (TAB, LF, VT, FF, CR, SP, NBSP,
  the Unicode space separators, LS, PS and the byte order mark).
\<close>

definition is_ws :: "jschar \<Rightarrow> bool" where
  "is_ws c = (unat c \<in> set [0x09, 0x0A, 0x0B, 0x0C, 0x0D, 0x20, 0xA0, 0x1680,
      0x2000, 0x2001, 0x2002, 0x2003, 0x2004, 0x2005, 0x2006, 0x2007, 0x2008, 0x2009,
      0x200A, 0x2028, 0x2029, 0x202F, 0x205F, 0x3000, 0xFEFF])"

text \<open>\<^verbatim>\<open>s.trim()\<close>: white space removed at both ends.\<close>

definition trim :: "jsstring \<Rightarrow> jsstring" where
  "trim s = rev (dropWhile is_ws (rev (dropWhile is_ws s)))"

text \<open>The class \<^verbatim>\<open>\d\<close> of a regular expression without the unicode flag: 0 to 9.\<close>

definition is_digit :: "jschar \<Rightarrow> bool" where
  "is_digit c = (0x30 \<le> unat c \<and> unat c \<le> 0x39)"

text \<open>
  \<^verbatim>\<open>/^\d{4}$/.test(s)\<close>. The expression has no flags, so both anchors are the ends of
  the whole input and the test keeps no state between calls.
\<close>

definition test_4digit :: "jsstring \<Rightarrow> bool" where
  "test_4digit s = (length s = 4 \<and> list_all is_digit s)"

text \<open>
  A JavaScript number, as far as the pages meet one: an integer or NaN. The integer is
  the mathematical value; a Number holds it exactly up to \<open>2 ^ 53\<close>, and the sign of
  zero is not told apart.
\<close>

datatype jsnumber = NaN | Num int

text \<open>The value of a digit of radix up to 16, when the code unit is one.\<close>

definition digit_val :: "jschar \<Rightarrow> nat option" where
  "digit_val c =
     (let u = unat c in
      if 0x30 \<le> u \<and> u \<le> 0x39 then Some (u - 0x30)
      else if 0x61 \<le> u \<and> u \<le> 0x66 then Some (u - 0x61 + 10)
      else if 0x41 \<le> u \<and> u \<le> 0x46 then Some (u - 0x41 + 10)
      else None)"

definition is_radix_digit :: "nat \<Rightarrow> jschar \<Rightarrow> bool" where
  "is_radix_digit r c = (case digit_val c of None \<Rightarrow> False | Some d \<Rightarrow> d < r)"

fun digits_value :: "nat \<Rightarrow> nat \<Rightarrow> jsstring \<Rightarrow> nat" where
  "digits_value r acc [] = acc"
| "digits_value r acc (c # cs) =
     digits_value r (acc * r + (case digit_val c of None \<Rightarrow> 0 | Some d \<Rightarrow> d)) cs"

text \<open>
  \<^verbatim>\<open>parseInt(s)\<close> with no radix argument: leading white space is skipped, one sign is
  read, a prefix \<^verbatim>\<open>0x\<close> or \<^verbatim>\<open>0X\<close> selects radix 16, and the longest run of digits of
  the radix is the value; with no digit the result is NaN. Whatever follows the digits
  is ignored.
\<close>

definition parseInt :: "jsstring \<Rightarrow> jsnumber" where
  "parseInt inputString =
     (let s = dropWhile is_ws inputString;
          neg = (case s of [] \<Rightarrow> False | c # _ \<Rightarrow> unat c = 0x2D);
          s1 = (case s of [] \<Rightarrow> s
                | c # cs \<Rightarrow> if unat c = 0x2B \<or> unat c = 0x2D then cs else s);
          hex = (case s1 of a # b # _ \<Rightarrow> unat a = 0x30 \<and> (unat b = 0x78 \<or> unat b = 0x58)
                | _ \<Rightarrow> False);
          r = (if hex then 16 else 10);
          s2 = (if hex then drop 2 s1 else s1);
          z = takeWhile (is_radix_digit r) s2
      in if z = [] then NaN
         else if neg then Num (- int (digits_value r 0 z))
         else Num (int (digits_value r 0 z)))"

text \<open>
  \<^verbatim>\<open>String(n)\<close> for an integer \<open>n\<close>: its decimal digits, after a minus sign when it is
  negative. (That is the form of every integer Number below \<open>10 ^ 21\<close> in magnitude.)
\<close>

fun nat_digits :: "nat \<Rightarrow> jsstring" where
  "nat_digits n =
     (if n < 10 then [word_of_nat (0x30 + n)]
      else nat_digits (n div 10) @ [word_of_nat (0x30 + n mod 10)])"

definition Number_toString :: "int \<Rightarrow> jsstring" where
  "Number_toString n = (if n < 0 then lit ''-'' @ nat_digits (nat (- n)) else nat_digits (nat n))"

text \<open>\<^verbatim>\<open>a < b\<close> on numbers: false as soon as one side is NaN.\<close>

fun js_less :: "jsnumber \<Rightarrow> jsnumber \<Rightarrow> bool" where
  "js_less (Num a) (Num b) = (a < b)"
| "js_less _ _ = False"


section \<open>The data of the fund pages\<close>

text \<open>
  The form object, the error object, the fund fetched from the API and the object sent
  to it all have the same four properties; they differ in what the properties hold.
\<close>

record ('s, 'n) fund_fields =
  name :: 's
  gp_name :: 's
  fund_type :: 's
  vintage_year :: 'n

text \<open>The form: four strings, all empty when the page is mounted.\<close>

type_synonym form_state = "(jsstring, jsstring) fund_fields"

text \<open>
  The error object \<^verbatim>\<open>temp\<close>: a property is \<open>None\<close> while it has not been assigned, and
  holds its message once it has.
\<close>

type_synonym error_state = "(string option, string option) fund_fields"

text \<open>
  Modelled from the spec: the type of the record that \<^verbatim>\<open>fundApi.get\<close> returns is declared
  in \<^verbatim>\<open>@/lib/api\<close>, which is not part of the sources at hand. The wire contract is
  \<^verbatim>\<open>{ name: string, gp_name: string, fund_type: string, vintage_year: integer }\<close>; the
  edit page reads every property through \<^verbatim>\<open>?.\<close>, so each may also be missing (\<open>None\<close>).
\<close>

type_synonym fund_record = "(jsstring option, int option) fund_fields"

text \<open>The object handed to \<^verbatim>\<open>fundApi.create\<close> and \<^verbatim>\<open>fundApi.update\<close>.\<close>

type_synonym payload = "(jsstring option, jsnumber) fund_fields"

text \<open>The object \<^verbatim>\<open>final\<close> of the edit page's \<^verbatim>\<open>validate\<close>.\<close>

type_synonym final_values = "(jsstring option, jsstring) fund_fields"

text \<open>The four inputs of a page, by their \<^verbatim>\<open>name\<close> attribute.\<close>

datatype field_name = Name | GpName | FundType | VintageYear

text \<open>The React state of a page: \<^verbatim>\<open>form\<close>, \<^verbatim>\<open>errors\<close> and \<^verbatim>\<open>loading\<close>.\<close>

record page =
  form :: form_state
  errors :: error_state
  loading :: bool

definition empty_form :: form_state where
  "empty_form = \<lparr>name = [], gp_name = [], fund_type = [], vintage_year = []\<rparr>"

definition empty_object :: error_state where
  "empty_object = \<lparr>name = None, gp_name = None, fund_type = None, vintage_year = None\<rparr>"

definition initial_page :: page where
  "initial_page = \<lparr>form = empty_form, errors = empty_object, loading = False\<rparr>"

text \<open>\<^verbatim>\<open>Object.keys(temp)\<close>: the properties that have been assigned.\<close>

definition Object_keys :: "error_state \<Rightarrow> field_name list" where
  "Object_keys temp =
     (if name temp = None then [] else [Name]) @
     (if gp_name temp = None then [] else [GpName]) @
     (if fund_type temp = None then [] else [FundType]) @
     (if vintage_year temp = None then [] else [VintageYear])"

text \<open>The property of the error object that belongs to an input.\<close>

fun error_of :: "error_state \<Rightarrow> field_name \<Rightarrow> string option" where
  "error_of temp Name = name temp"
| "error_of temp GpName = gp_name temp"
| "error_of temp FundType = fund_type temp"
| "error_of temp VintageYear = vintage_year temp"

text \<open>
  What a submit handler does to the world outside the React state, in the order in
  which it does it.
\<close>

datatype effect =
    PreventDefault
  | SetLoading bool
  | ApiCreate payload
  | ApiUpdate jsnumber payload
  | SetLocationHref string
  | ConsoleError string string
  | Alert string

text \<open>How the awaited call to the API ends: the promise resolves, or rejects with an error.\<close>

datatype api_outcome = Resolved | Rejected string

fun is_api_call :: "effect \<Rightarrow> bool" where
  "is_api_call (ApiCreate _) = True"
| "is_api_call (ApiUpdate _ _) = True"
| "is_api_call _ = False"

section \<open>The page that creates a fund\<close>

text \<open>
  \<^verbatim>\<open>validate\<close> of \<^verbatim>\<open>NewFundPage\<close>: the error object it builds. The three names are
  tested after \<^verbatim>\<open>trim()\<close>; the year is tested for emptiness after \<^verbatim>\<open>trim()\<close> and against
  the pattern as it was typed.
\<close>

definition NewFundPage_temp :: "form_state \<Rightarrow> error_state" where
  "NewFundPage_temp f =
     (let temp = empty_object;
          temp = (if trim (name f) = [] then temp\<lparr>name := Some ''Fund Name is required.''\<rparr>
                  else temp);
          temp = (if trim (gp_name f) = [] then temp\<lparr>gp_name := Some ''GP Name is required.''\<rparr>
                  else temp);
          temp = (if trim (fund_type f) = []
                  then temp\<lparr>fund_type := Some ''Fund Type is required.''\<rparr> else temp);
          temp = (if trim (vintage_year f) = []
                  then temp\<lparr>vintage_year := Some ''Vintage Year is required.''\<rparr>
                  else if \<not> test_4digit (vintage_year f)
                  then temp\<lparr>vintage_year := Some ''Vintage Year must be a 4-digit year.''\<rparr>
                  else temp)
      in temp)"

text \<open>\<^verbatim>\<open>validate\<close>: stores the error object and tells whether it has no key.\<close>

definition NewFundPage_validate :: "page \<Rightarrow> bool \<times> page" where
  "NewFundPage_validate st =
     (let temp = NewFundPage_temp (form st)
      in (length (Object_keys temp) = 0, st\<lparr>errors := temp\<rparr>))"

text \<open>\<^verbatim>\<open>handleChange\<close>: a copy of the form with the property of the input replaced.\<close>

fun set_field :: "field_name \<Rightarrow> jsstring \<Rightarrow> form_state \<Rightarrow> form_state" where
  "set_field Name v f = f\<lparr>name := v\<rparr>"
| "set_field GpName v f = f\<lparr>gp_name := v\<rparr>"
| "set_field FundType v f = f\<lparr>fund_type := v\<rparr>"
| "set_field VintageYear v f = f\<lparr>vintage_year := v\<rparr>"

definition NewFundPage_handleChange :: "field_name \<Rightarrow> jsstring \<Rightarrow> page \<Rightarrow> page" where
  "NewFundPage_handleChange target_name target_value st =
     st\<lparr>form := set_field target_name target_value (form st)\<rparr>"

text \<open>The object built for \<^verbatim>\<open>fundApi.create\<close>.\<close>

definition NewFundPage_payload :: "form_state \<Rightarrow> payload" where
  "NewFundPage_payload f =
     \<lparr>name = Some (name f), gp_name = Some (gp_name f), fund_type = Some (fund_type f),
      vintage_year = parseInt (vintage_year f)\<rparr>"

text \<open>
  \<^verbatim>\<open>handleSubmit\<close>: the state it leaves and what it did. The outcome of the API call is
  an input; it is looked at only on the path that makes the call.
\<close>

definition NewFundPage_handleSubmit :: "api_outcome \<Rightarrow> page \<Rightarrow> page \<times> effect list" where
  "NewFundPage_handleSubmit outcome st =
     (let (ok, st1) = NewFundPage_validate st
      in if \<not> ok then (st1, [PreventDefault])
         else
           (case outcome of
              Resolved \<Rightarrow>
                (st1\<lparr>loading := False\<rparr>,
                 [PreventDefault, SetLoading True, ApiCreate (NewFundPage_payload (form st)),
                  SetLocationHref ''/funds'', SetLoading False])
            | Rejected err \<Rightarrow>
                (st1\<lparr>loading := False\<rparr>,
                 [PreventDefault, SetLoading True, ApiCreate (NewFundPage_payload (form st)),
                  ConsoleError ''Failed to create fund:'' err,
                  Alert ''Failed to create fund. Please try again.'', SetLoading False])))"

section \<open>The page that edits a fund\<close>

text \<open>
  \<^verbatim>\<open>a || b\<close> with a string on the left and a string or undefined on the right: the
  left side when it is not empty, else the right side.
\<close>

definition js_or :: "jsstring \<Rightarrow> jsstring option \<Rightarrow> jsstring option" where
  "js_or a b = (if a \<noteq> [] then Some a else b)"

text \<open>The same with a string on the right as well.\<close>

definition js_or_string :: "jsstring \<Rightarrow> jsstring \<Rightarrow> jsstring" where
  "js_or_string a b = (if a \<noteq> [] then a else b)"

text \<open>
  The object \<^verbatim>\<open>final\<close> of \<^verbatim>\<open>validate\<close>. \<^verbatim>\<open>fund?.name?.trim()\<close> is undefined when the fund
  or its name is missing. \<^verbatim>\<open>fund?.vintage_year || ""\<close> is the empty string when the year
  is missing or zero, and \<^verbatim>\<open>String\<close> leaves an empty string as it is.
\<close>

definition EditFundPage_validate_final :: "form_state \<Rightarrow> fund_record option \<Rightarrow> final_values" where
  "EditFundPage_validate_final f fund =
     \<lparr>name = js_or (trim (name f))
               (case fund of None \<Rightarrow> None | Some fd \<Rightarrow> map_option trim (name fd)),
      gp_name = js_or (trim (gp_name f))
               (case fund of None \<Rightarrow> None | Some fd \<Rightarrow> map_option trim (gp_name fd)),
      fund_type = js_or (trim (fund_type f))
               (case fund of None \<Rightarrow> None | Some fd \<Rightarrow> map_option trim (fund_type fd)),
      vintage_year = js_or_string (trim (vintage_year f))
               (case (case fund of None \<Rightarrow> None | Some fd \<Rightarrow> vintage_year fd) of
                  None \<Rightarrow> []
                | Some n \<Rightarrow> if n = 0 then [] else Number_toString n)\<rparr>"

text \<open>\<^verbatim>\<open>!v\<close> for a string that may be undefined.\<close>

fun js_not :: "jsstring option \<Rightarrow> bool" where
  "js_not None = True"
| "js_not (Some s) = (s = [])"

definition EditFundPage_temp :: "form_state \<Rightarrow> fund_record option \<Rightarrow> error_state" where
  "EditFundPage_temp f fund =
     (let final = EditFundPage_validate_final f fund;
          temp = empty_object;
          temp = (if js_not (name final) then temp\<lparr>name := Some ''Fund Name is required.''\<rparr>
                  else temp);
          temp = (if js_not (gp_name final) then temp\<lparr>gp_name := Some ''GP Name is required.''\<rparr>
                  else temp);
          temp = (if js_not (fund_type final)
                  then temp\<lparr>fund_type := Some ''Fund Type is required.''\<rparr> else temp);
          temp = (if vintage_year final = []
                  then temp\<lparr>vintage_year := Some ''Vintage Year is required.''\<rparr>
                  else if \<not> test_4digit (vintage_year final)
                  then temp\<lparr>vintage_year := Some ''Vintage Year must be a 4-digit year.''\<rparr>
                  else if js_less (parseInt (vintage_year final)) (Num 1900)
                  then temp\<lparr>vintage_year := Some ''Vintage Year must be greater than 1900.''\<rparr>
                  else temp)
      in temp)"

definition EditFundPage_validate :: "fund_record option \<Rightarrow> page \<Rightarrow> bool \<times> page" where
  "EditFundPage_validate fund st =
     (let temp = EditFundPage_temp (form st) fund
      in (length (Object_keys temp) = 0, st\<lparr>errors := temp\<rparr>))"

definition EditFundPage_handleChange :: "field_name \<Rightarrow> jsstring \<Rightarrow> page \<Rightarrow> page" where
  "EditFundPage_handleChange target_name target_value st =
     st\<lparr>form := set_field target_name target_value (form st)\<rparr>"

text \<open>
  The string that \<^verbatim>\<open>handleSubmit\<close> hands to \<^verbatim>\<open>parseInt\<close>. \<^verbatim>\<open>String(undefined)\<close> is the
  word \<^verbatim>\<open>undefined\<close>.
\<close>

definition EditFundPage_submit_year :: "form_state \<Rightarrow> fund_record option \<Rightarrow> jsstring" where
  "EditFundPage_submit_year f fund =
     js_or_string (trim (vintage_year f))
       (case (case fund of None \<Rightarrow> None | Some fd \<Rightarrow> vintage_year fd) of
          None \<Rightarrow> lit ''undefined''
        | Some n \<Rightarrow> Number_toString n)"

text \<open>The object \<^verbatim>\<open>final\<close> of \<^verbatim>\<open>handleSubmit\<close>, handed to \<^verbatim>\<open>fundApi.update\<close>.\<close>

definition EditFundPage_submit_final :: "form_state \<Rightarrow> fund_record option \<Rightarrow> payload" where
  "EditFundPage_submit_final f fund =
     \<lparr>name = js_or (trim (name f)) (case fund of None \<Rightarrow> None | Some fd \<Rightarrow> name fd),
      gp_name = js_or (trim (gp_name f))
                  (case fund of None \<Rightarrow> None | Some fd \<Rightarrow> gp_name fd),
      fund_type = js_or (trim (fund_type f))
                  (case fund of None \<Rightarrow> None | Some fd \<Rightarrow> fund_type fd),
      vintage_year = parseInt (EditFundPage_submit_year f fund)\<rparr>"

definition EditFundPage_handleSubmit ::
  "jsnumber \<Rightarrow> fund_record option \<Rightarrow> api_outcome \<Rightarrow> page \<Rightarrow> page \<times> effect list" where
  "EditFundPage_handleSubmit fundId fund outcome st =
     (let (ok, st1) = EditFundPage_validate fund st
      in if \<not> ok then (st1, [PreventDefault])
         else
           (case outcome of
              Resolved \<Rightarrow>
                (st1\<lparr>loading := False\<rparr>,
                 [PreventDefault, SetLoading True,
                  ApiUpdate fundId (EditFundPage_submit_final (form st) fund),
                  SetLocationHref ''/funds'', SetLoading False])
            | Rejected err \<Rightarrow>
                (st1\<lparr>loading := False\<rparr>,
                 [PreventDefault, SetLoading True,
                  ApiUpdate fundId (EditFundPage_submit_final (form st) fund),
                  ConsoleError ''Failed to update fund:'' err,
                  Alert ''Failed to update fund. Please try again.'', SetLoading False])))"

section \<open>The validation rules in the words of the specification\<close>

text \<open>
  The specification gives one rule to each field, the same on both pages but for two
  things: only the edit page has a remote record to fall back on, and only the edit page
  asks the year to be at least 1900. These definitions follow its words, not the pages.
  A field is unedited when its local value is empty after trimming. The value of a field
  is its trimmed local value, or the value of the remote record when the field is
  unedited and there is a remote record. A required value is there and is not empty
  after trimming. The year is required, has exactly four decimal digits and, on the edit
  page only, parses to an integer that is at least 1900.
\<close>

definition spec_unedited :: "jsstring \<Rightarrow> bool" where
  "spec_unedited local = (trim local = [])"

definition spec_resolve :: "jsstring \<Rightarrow> jsstring option \<Rightarrow> jsstring option" where
  "spec_resolve local remote = (if spec_unedited local then remote else Some (trim local))"

definition spec_required :: "jsstring option \<Rightarrow> bool" where
  "spec_required v = (case v of None \<Rightarrow> False | Some s \<Rightarrow> trim s \<noteq> [])"

definition spec_at_least_1900 :: "jsstring \<Rightarrow> bool" where
  "spec_at_least_1900 s = (case parseInt s of NaN \<Rightarrow> False | Num n \<Rightarrow> 1900 \<le> n)"

definition spec_year_rule :: "bool \<Rightarrow> jsstring option \<Rightarrow> bool" where
  "spec_year_rule edit v =
     (case v of None \<Rightarrow> False
      | Some s \<Rightarrow> spec_required v \<and> test_4digit s \<and> (if edit then spec_at_least_1900 s else True))"

text \<open>
  The rule of a field. The flag tells the edit page from the create page; the create
  page has no remote record, so its rule is \<open>spec_rule False fld f None\<close>.
\<close>

fun spec_rule :: "bool \<Rightarrow> field_name \<Rightarrow> form_state \<Rightarrow> fund_record option \<Rightarrow> bool" where
  "spec_rule edit Name f fund =
     spec_required (spec_resolve (name f) (case fund of None \<Rightarrow> None | Some fd \<Rightarrow> name fd))"
| "spec_rule edit GpName f fund =
     spec_required
       (spec_resolve (gp_name f) (case fund of None \<Rightarrow> None | Some fd \<Rightarrow> gp_name fd))"
| "spec_rule edit FundType f fund =
     spec_required
       (spec_resolve (fund_type f) (case fund of None \<Rightarrow> None | Some fd \<Rightarrow> fund_type fd))"
| "spec_rule edit VintageYear f fund =
     spec_year_rule edit
       (spec_resolve (vintage_year f)
          (case fund of None \<Rightarrow> None | Some fd \<Rightarrow> map_option Number_toString (vintage_year fd)))"

text \<open>The value of the form that belongs to an input.\<close>

fun value_of :: "form_state \<Rightarrow> field_name \<Rightarrow> jsstring" where
  "value_of f Name = name f"
| "value_of f GpName = gp_name f"
| "value_of f FundType = fund_type f"
| "value_of f VintageYear = vintage_year f"

text \<open>Effects that leave the page, and effects that tell the user of a failure.\<close>

fun is_navigation :: "effect \<Rightarrow> bool" where
  "is_navigation (SetLocationHref _) = True"
| "is_navigation _ = False"

fun is_alert :: "effect \<Rightarrow> bool" where
  "is_alert (Alert _) = True"
| "is_alert _ = False"

section \<open>Auxiliary facts\<close>

subsection \<open>Digits, white space and \<^verbatim>\<open>parseInt\<close>\<close>

lemma digit_not_ws: "is_digit c \<Longrightarrow> \<not> is_ws c"
  by (auto simp: is_digit_def is_ws_def)

lemma digit_val_digit: "is_digit c \<Longrightarrow> digit_val c = Some (unat c - 0x30)"
  by (simp add: is_digit_def digit_val_def)

lemma digit_radix10: "is_digit c \<Longrightarrow> is_radix_digit 10 c"
  by (auto simp: is_radix_digit_def digit_val_digit is_digit_def)

lemma test_4digit_shape:
  "test_4digit s = (\<exists>a b c d. s = [a, b, c, d] \<and> is_digit a \<and> is_digit b \<and> is_digit c \<and> is_digit d)"
  by (auto simp: test_4digit_def length_Suc_conv numeral_eq_Suc)

lemma parseInt_digits4:
  assumes "is_digit a" "is_digit b" "is_digit c" "is_digit d"
  shows "parseInt [a, b, c, d] =
    Num (int (1000 * (unat a - 0x30) + 100 * (unat b - 0x30) + 10 * (unat c - 0x30) + (unat d - 0x30)))"
proof -
  have nows: "dropWhile is_ws [a, b, c, d] = [a, b, c, d]"
    using assms(1) by (simp add: digit_not_ws)
  have nosign: "unat a \<noteq> 0x2B" "unat a \<noteq> 0x2D"
    using assms(1) by (auto simp: is_digit_def)
  have nohex: "unat b \<noteq> 0x78" "unat b \<noteq> 0x58"
    using assms(2) by (auto simp: is_digit_def)
  have tw: "takeWhile (is_radix_digit 10) [a, b, c, d] = [a, b, c, d]"
    using assms by (simp add: digit_radix10)
  show ?thesis
    unfolding parseInt_def nows
    using nosign nohex tw assms by (simp add: digit_val_digit)
qed

lemma parseInt_4digit_range:
  assumes "test_4digit s"
  shows "\<exists>n. parseInt s = Num n \<and> 0 \<le> n \<and> n \<le> 9999"
proof -
  from assms obtain a b c d where s: "s = [a, b, c, d]"
    and d: "is_digit a" "is_digit b" "is_digit c" "is_digit d"
    unfolding test_4digit_shape by blast
  have "unat a - 0x30 \<le> 9" "unat b - 0x30 \<le> 9" "unat c - 0x30 \<le> 9" "unat d - 0x30 \<le> 9"
    using d by (auto simp: is_digit_def)
  then show ?thesis
    unfolding s parseInt_digits4[OF d] by simp
qed

lemma trim_4digit: "test_4digit s \<Longrightarrow> trim s = s"
  by (auto simp: test_4digit_shape trim_def digit_not_ws)

lemma last_dropWhile_keep: "dropWhile P xs \<noteq> [] \<Longrightarrow> last (dropWhile P xs) = last xs"
  by (induction xs) (auto split: if_splits)

lemma dropWhile_rev_trimmed:
  assumes "u = dropWhile P (rev (dropWhile P s))"
  shows "dropWhile P (rev u) = rev u"
proof (cases "u = []")
  case True
  then show ?thesis by simp
next
  case False
  let ?t = "dropWhile P s"
  have "last u = last (rev ?t)"
    using False assms last_dropWhile_keep[of P "rev ?t"] by simp
  moreover have "?t \<noteq> []"
  proof
    assume "?t = []"
    then have "u = []" unfolding assms by (simp only: rev.simps dropWhile.simps)
    then show False using False by simp
  qed
  ultimately have "last u = hd ?t" by (simp add: last_rev)
  moreover have "\<not> P (hd ?t)" using \<open>?t \<noteq> []\<close> by (rule hd_dropWhile)
  ultimately have "\<not> P (hd (rev u))" using False by (simp add: hd_rev)
  then show ?thesis using False by (cases "rev u") auto
qed

lemma trim_idem: "trim (trim s) = trim s"
proof -
  define u where "u = dropWhile is_ws (rev (dropWhile is_ws s))"
  have "dropWhile is_ws (rev u) = rev u"
    using u_def by (rule dropWhile_rev_trimmed)
  moreover have "dropWhile is_ws u = u"
    unfolding u_def by (rule dropWhile_idem)
  ultimately show ?thesis
    unfolding trim_def u_def[symmetric] by simp
qed

lemma trim_Nil: "trim [] = []"
  by (simp add: trim_def)

subsection \<open>The error object, field by field\<close>

lemma Object_keys_Nil:
  "(Object_keys t = []) =
     (name t = None \<and> gp_name t = None \<and> fund_type t = None \<and> vintage_year t = None)"
  by (simp add: Object_keys_def)

lemma set_Object_keys: "set (Object_keys t) = {fld. error_of t fld \<noteq> None}"
proof -
  have "fld \<in> set (Object_keys t) \<longleftrightarrow> error_of t fld \<noteq> None" for fld
    by (cases fld) (simp_all add: Object_keys_def)
  then show ?thesis by blast
qed

lemma NewFundPage_temp_name:
  "name (NewFundPage_temp f) = (if trim (name f) = [] then Some ''Fund Name is required.'' else None)"
  by (simp add: NewFundPage_temp_def empty_object_def Let_def)

lemma NewFundPage_temp_gp_name:
  "gp_name (NewFundPage_temp f) =
     (if trim (gp_name f) = [] then Some ''GP Name is required.'' else None)"
  by (simp add: NewFundPage_temp_def empty_object_def Let_def)

lemma NewFundPage_temp_fund_type:
  "fund_type (NewFundPage_temp f) =
     (if trim (fund_type f) = [] then Some ''Fund Type is required.'' else None)"
  by (simp add: NewFundPage_temp_def empty_object_def Let_def)

lemma NewFundPage_temp_vintage_year:
  "vintage_year (NewFundPage_temp f) =
     (if trim (vintage_year f) = [] then Some ''Vintage Year is required.''
      else if \<not> test_4digit (vintage_year f) then Some ''Vintage Year must be a 4-digit year.''
      else None)"
  by (simp add: NewFundPage_temp_def empty_object_def Let_def)

lemmas NewFundPage_temp_fields =
  NewFundPage_temp_name NewFundPage_temp_gp_name NewFundPage_temp_fund_type
  NewFundPage_temp_vintage_year

lemma EditFundPage_temp_name:
  "name (EditFundPage_temp f fund) =
     (if js_not (name (EditFundPage_validate_final f fund)) then Some ''Fund Name is required.''
      else None)"
  by (simp add: EditFundPage_temp_def empty_object_def Let_def)

lemma EditFundPage_temp_gp_name:
  "gp_name (EditFundPage_temp f fund) =
     (if js_not (gp_name (EditFundPage_validate_final f fund)) then Some ''GP Name is required.''
      else None)"
  by (simp add: EditFundPage_temp_def empty_object_def Let_def)

lemma EditFundPage_temp_fund_type:
  "fund_type (EditFundPage_temp f fund) =
     (if js_not (fund_type (EditFundPage_validate_final f fund))
      then Some ''Fund Type is required.'' else None)"
  by (simp add: EditFundPage_temp_def empty_object_def Let_def)

lemma EditFundPage_temp_vintage_year:
  "vintage_year (EditFundPage_temp f fund) =
     (let v = vintage_year (EditFundPage_validate_final f fund)
      in if v = [] then Some ''Vintage Year is required.''
         else if \<not> test_4digit v then Some ''Vintage Year must be a 4-digit year.''
         else if js_less (parseInt v) (Num 1900)
         then Some ''Vintage Year must be greater than 1900.''
         else None)"
  by (simp add: EditFundPage_temp_def empty_object_def Let_def)

lemmas EditFundPage_temp_fields =
  EditFundPage_temp_name EditFundPage_temp_gp_name EditFundPage_temp_fund_type
  EditFundPage_temp_vintage_year

lemma NewFundPage_validate_simps:
  "fst (NewFundPage_validate st) = (Object_keys (NewFundPage_temp (form st)) = [])"
  "snd (NewFundPage_validate st) = st\<lparr>errors := NewFundPage_temp (form st)\<rparr>"
  by (simp_all add: NewFundPage_validate_def Let_def)

lemma EditFundPage_validate_simps:
  "fst (EditFundPage_validate fund st) = (Object_keys (EditFundPage_temp (form st) fund) = [])"
  "snd (EditFundPage_validate fund st) = st\<lparr>errors := EditFundPage_temp (form st) fund\<rparr>"
  by (simp_all add: EditFundPage_validate_def Let_def)

subsection \<open>Evaluating on literals, and the two handlers on a valid form\<close>

lemmas string_eval = lit_def trim_def is_ws_def test_4digit_def is_digit_def parseInt_def
  is_radix_digit_def digit_val_def Number_toString_def

lemma js_less_4digit:
  assumes "test_4digit s"
  shows "\<exists>n. parseInt s = Num n \<and> 0 \<le> n \<and> n \<le> 9999 \<and> js_less (parseInt s) (Num 1900) = (n < 1900)"
  using parseInt_4digit_range[OF assms] by auto

lemma test_4digit_not_Nil: "test_4digit s \<Longrightarrow> s \<noteq> []"
  by (auto simp: test_4digit_def)

lemma NewFundPage_handleSubmit_valid:
  assumes "fst (NewFundPage_validate st)"
  shows "NewFundPage_handleSubmit Resolved st =
      (st\<lparr>errors := NewFundPage_temp (form st), loading := False\<rparr>,
       [PreventDefault, SetLoading True, ApiCreate (NewFundPage_payload (form st)),
        SetLocationHref ''/funds'', SetLoading False])"
    and "NewFundPage_handleSubmit (Rejected err) st =
      (st\<lparr>errors := NewFundPage_temp (form st), loading := False\<rparr>,
       [PreventDefault, SetLoading True, ApiCreate (NewFundPage_payload (form st)),
        ConsoleError ''Failed to create fund:'' err,
        Alert ''Failed to create fund. Please try again.'', SetLoading False])"
  using assms by (simp_all add: NewFundPage_handleSubmit_def NewFundPage_validate_def Let_def)

lemma EditFundPage_handleSubmit_valid:
  assumes "fst (EditFundPage_validate fund st)"
  shows "EditFundPage_handleSubmit fundId fund Resolved st =
      (st\<lparr>errors := EditFundPage_temp (form st) fund, loading := False\<rparr>,
       [PreventDefault, SetLoading True,
        ApiUpdate fundId (EditFundPage_submit_final (form st) fund),
        SetLocationHref ''/funds'', SetLoading False])"
    and "EditFundPage_handleSubmit fundId fund (Rejected err) st =
      (st\<lparr>errors := EditFundPage_temp (form st) fund, loading := False\<rparr>,
       [PreventDefault, SetLoading True,
        ApiUpdate fundId (EditFundPage_submit_final (form st) fund),
        ConsoleError ''Failed to update fund:'' err,
        Alert ''Failed to update fund. Please try again.'', SetLoading False])"
  using assms by (simp_all add: EditFundPage_handleSubmit_def EditFundPage_validate_def Let_def)

lemma NewFundPage_valid_year:
  assumes "fst (NewFundPage_validate st)"
  shows "test_4digit (vintage_year (form st))"
proof -
  have "vintage_year (NewFundPage_temp (form st)) = None"
    using assms by (simp add: NewFundPage_validate_simps Object_keys_Nil)
  then show ?thesis
    by (simp add: NewFundPage_temp_vintage_year split: if_splits)
qed

section \<open>Submission\<close>

text \<open>
  C1. On either page and in every state, when \<^verbatim>\<open>validate\<close> leaves an error object that
  has a key, \<^verbatim>\<open>handleSubmit\<close> returns at once: all it has done is \<^verbatim>\<open>preventDefault\<close> and
  storing the errors, no call to the API is made, \<^verbatim>\<open>setLoading(true)\<close> is never run and
  the loading flag is as it was.
\<close>

theorem submit_aborts_on_errors:
  "(Object_keys (errors (snd (NewFundPage_validate st))) \<noteq> [] \<longrightarrow>
      NewFundPage_handleSubmit outcome st = (snd (NewFundPage_validate st), [PreventDefault]) \<and>
      filter is_api_call (snd (NewFundPage_handleSubmit outcome st)) = [] \<and>
      SetLoading True \<notin> set (snd (NewFundPage_handleSubmit outcome st)) \<and>
      loading (fst (NewFundPage_handleSubmit outcome st)) = loading st) \<and>
   (Object_keys (errors (snd (EditFundPage_validate fund st))) \<noteq> [] \<longrightarrow>
      EditFundPage_handleSubmit fundId fund outcome st =
        (snd (EditFundPage_validate fund st), [PreventDefault]) \<and>
      filter is_api_call (snd (EditFundPage_handleSubmit fundId fund outcome st)) = [] \<and>
      SetLoading True \<notin> set (snd (EditFundPage_handleSubmit fundId fund outcome st)) \<and>
      loading (fst (EditFundPage_handleSubmit fundId fund outcome st)) = loading st)"
proof (intro conjI impI)
  assume a: "Object_keys (errors (snd (NewFundPage_validate st))) \<noteq> []"
  then have r: "NewFundPage_handleSubmit outcome st = (snd (NewFundPage_validate st), [PreventDefault])"
    by (simp add: NewFundPage_handleSubmit_def NewFundPage_validate_def Let_def)
  show "NewFundPage_handleSubmit outcome st = (snd (NewFundPage_validate st), [PreventDefault])"
    by (rule r)
  show "filter is_api_call (snd (NewFundPage_handleSubmit outcome st)) = []"
    by (simp add: r)
  show "SetLoading True \<notin> set (snd (NewFundPage_handleSubmit outcome st))"
    by (simp add: r)
  show "loading (fst (NewFundPage_handleSubmit outcome st)) = loading st"
    by (simp add: r NewFundPage_validate_simps)
next
  assume a: "Object_keys (errors (snd (EditFundPage_validate fund st))) \<noteq> []"
  then have r: "EditFundPage_handleSubmit fundId fund outcome st =
      (snd (EditFundPage_validate fund st), [PreventDefault])"
    by (simp add: EditFundPage_handleSubmit_def EditFundPage_validate_def Let_def)
  show "EditFundPage_handleSubmit fundId fund outcome st =
      (snd (EditFundPage_validate fund st), [PreventDefault])"
    by (rule r)
  show "filter is_api_call (snd (EditFundPage_handleSubmit fundId fund outcome st)) = []"
    by (simp add: r)
  show "SetLoading True \<notin> set (snd (EditFundPage_handleSubmit fundId fund outcome st))"
    by (simp add: r)
  show "loading (fst (EditFundPage_handleSubmit fundId fund outcome st)) = loading st"
    by (simp add: r EditFundPage_validate_simps)
qed

theorem submit_aborts_on_errors_witness:
  "Object_keys (errors (snd (NewFundPage_validate initial_page))) =
     [Name, GpName, FundType, VintageYear] \<and>
   snd (NewFundPage_handleSubmit Resolved initial_page) = [PreventDefault] \<and>
   loading (fst (NewFundPage_handleSubmit Resolved initial_page)) = False \<and>
   Object_keys (errors (snd (EditFundPage_validate None initial_page))) =
     [Name, GpName, FundType, VintageYear] \<and>
   snd (EditFundPage_handleSubmit (Num 7) None Resolved initial_page) = [PreventDefault] \<and>
   loading (fst (EditFundPage_handleSubmit (Num 7) None Resolved initial_page)) = False"
proof -
  have n: "Object_keys (errors (snd (NewFundPage_validate initial_page))) =
      [Name, GpName, FundType, VintageYear]"
    by (simp add: NewFundPage_validate_simps Object_keys_def NewFundPage_temp_fields
        initial_page_def empty_form_def trim_Nil)
  have e: "Object_keys (errors (snd (EditFundPage_validate None initial_page))) =
      [Name, GpName, FundType, VintageYear]"
    by (simp add: EditFundPage_validate_simps Object_keys_def EditFundPage_temp_fields
        EditFundPage_validate_final_def js_or_def js_or_string_def
        initial_page_def empty_form_def trim_Nil)
  have l: "loading initial_page = False"
    by (simp add: initial_page_def)
  show ?thesis
    using submit_aborts_on_errors [of initial_page Resolved None "Num 7"] n e l
    by (simp add: NewFundPage_validate_simps(2) EditFundPage_validate_simps(2))
qed

section \<open>The rules of the year\<close>

text \<open>
  C4. On the edit page, whenever the merged year string has four digits, it parses to an
  integer and \<^verbatim>\<open>validate\<close> records a year error exactly when that integer is below 1900,
  with the message that the year must be greater than 1900: the merged string
  \<^verbatim>\<open>1899\<close> gets that message and \<^verbatim>\<open>1900\<close> gets no error. On the create page a year of
  four digits gets no error, whatever its value.
\<close>

theorem edit_year_lower_bound:
  "(test_4digit (vintage_year (EditFundPage_validate_final f fund)) \<longrightarrow>
      (\<exists>n. parseInt (vintage_year (EditFundPage_validate_final f fund)) = Num n \<and>
           vintage_year (EditFundPage_temp f fund) =
             (if n < 1900 then Some ''Vintage Year must be greater than 1900.'' else None))) \<and>
   (vintage_year (EditFundPage_validate_final f1 fund1) = lit ''1899'' \<longrightarrow>
      vintage_year (EditFundPage_temp f1 fund1) = Some ''Vintage Year must be greater than 1900.'') \<and>
   (vintage_year (EditFundPage_validate_final f2 fund2) = lit ''1900'' \<longrightarrow>
      vintage_year (EditFundPage_temp f2 fund2) = None) \<and>
   (test_4digit (vintage_year g) \<longrightarrow> vintage_year (NewFundPage_temp g) = None)"
proof (intro conjI impI)
  assume a: "test_4digit (vintage_year (EditFundPage_validate_final f fund))"
  from js_less_4digit[OF a] obtain n
    where n: "parseInt (vintage_year (EditFundPage_validate_final f fund)) = Num n"
      "js_less (parseInt (vintage_year (EditFundPage_validate_final f fund))) (Num 1900) = (n < 1900)"
    by blast
  have "vintage_year (EditFundPage_temp f fund) =
      (if n < 1900 then Some ''Vintage Year must be greater than 1900.'' else None)"
    using a n(2) test_4digit_not_Nil[OF a] by (simp add: EditFundPage_temp_vintage_year Let_def)
  with n(1) show "\<exists>n. parseInt (vintage_year (EditFundPage_validate_final f fund)) = Num n \<and>
      vintage_year (EditFundPage_temp f fund) =
        (if n < 1900 then Some ''Vintage Year must be greater than 1900.'' else None)"
    by blast
next
  assume "vintage_year (EditFundPage_validate_final f1 fund1) = lit ''1899''"
  then show "vintage_year (EditFundPage_temp f1 fund1) =
      Some ''Vintage Year must be greater than 1900.''"
    by (simp add: EditFundPage_temp_vintage_year string_eval)
next
  assume "vintage_year (EditFundPage_validate_final f2 fund2) = lit ''1900''"
  then show "vintage_year (EditFundPage_temp f2 fund2) = None"
    by (simp add: EditFundPage_temp_vintage_year string_eval)
next
  assume a: "test_4digit (vintage_year g)"
  then show "vintage_year (NewFundPage_temp g) = None"
    using trim_4digit[OF a] test_4digit_not_Nil[OF a] by (simp add: NewFundPage_temp_vintage_year)
qed

theorem edit_year_lower_bound_witness:
  "test_4digit (vintage_year (EditFundPage_validate_final (empty_form\<lparr>vintage_year := lit ''1850''\<rparr>) None)) \<and>
   vintage_year (EditFundPage_temp (empty_form\<lparr>vintage_year := lit ''1850''\<rparr>) None) =
     Some ''Vintage Year must be greater than 1900.'' \<and>
   vintage_year (EditFundPage_validate_final (empty_form\<lparr>vintage_year := lit ''1899''\<rparr>) None) =
     lit ''1899'' \<and>
   vintage_year (EditFundPage_temp (empty_form\<lparr>vintage_year := lit ''1899''\<rparr>) None) =
     Some ''Vintage Year must be greater than 1900.'' \<and>
   vintage_year (EditFundPage_validate_final empty_form
     (Some \<lparr>name = None, gp_name = None, fund_type = None, vintage_year = Some 1900\<rparr>)) =
     lit ''1900'' \<and>
   vintage_year (EditFundPage_temp empty_form
     (Some \<lparr>name = None, gp_name = None, fund_type = None, vintage_year = Some 1900\<rparr>)) = None \<and>
   test_4digit (vintage_year (empty_form\<lparr>vintage_year := lit ''0042''\<rparr>)) \<and>
   vintage_year (NewFundPage_temp (empty_form\<lparr>vintage_year := lit ''0042''\<rparr>)) = None"
proof -
  let ?f = "empty_form\<lparr>vintage_year := lit ''1850''\<rparr>"
  let ?f1 = "empty_form\<lparr>vintage_year := lit ''1899''\<rparr>"
  let ?fund2 = "Some \<lparr>name = None, gp_name = None, fund_type = None, vintage_year = Some (1900::int)\<rparr>
    :: fund_record option"
  let ?g = "empty_form\<lparr>vintage_year := lit ''0042''\<rparr>"
  have y: "vintage_year (EditFundPage_validate_final ?f None) = lit ''1850''"
    by (simp add: EditFundPage_validate_final_def js_or_string_def empty_form_def string_eval)
  have h: "test_4digit (vintage_year (EditFundPage_validate_final ?f None))"
    unfolding y by (simp add: string_eval)
  have p: "parseInt (lit ''1850'') = Num 1850"
    by (simp add: string_eval)
  have h1: "vintage_year (EditFundPage_validate_final ?f1 None) = lit ''1899''"
    by (simp add: EditFundPage_validate_final_def js_or_string_def empty_form_def string_eval)
  have h2: "vintage_year (EditFundPage_validate_final empty_form ?fund2) = lit ''1900''"
    by (simp add: EditFundPage_validate_final_def js_or_string_def empty_form_def string_eval)
  have h3: "test_4digit (vintage_year ?g)"
    by (simp add: empty_form_def string_eval)
  note t = edit_year_lower_bound [of ?f None ?f1 None empty_form ?fund2 ?g]
  from t h obtain n where n: "parseInt (vintage_year (EditFundPage_validate_final ?f None)) = Num n"
    "vintage_year (EditFundPage_temp ?f None) =
       (if n < 1900 then Some ''Vintage Year must be greater than 1900.'' else None)"
    by blast
  from n(1) have "n = 1850" unfolding y p by simp
  with n(2) have c: "vintage_year (EditFundPage_temp ?f None) =
      Some ''Vintage Year must be greater than 1900.''"
    by simp
  from t h1 have c1: "vintage_year (EditFundPage_temp ?f1 None) =
      Some ''Vintage Year must be greater than 1900.''"
    by blast
  from t h2 have c2: "vintage_year (EditFundPage_temp empty_form ?fund2) = None"
    by blast
  from t h3 have c3: "vintage_year (NewFundPage_temp ?g) = None"
    by blast
  show ?thesis
    using h c h1 c1 h2 c2 h3 c3 by blast
qed

text \<open>
  C6. A year that is not empty and does not have exactly four digits always gets a year
  error. On the create page the value is the one typed: the error is the required
  message when the value is only white space and the 4-digit message otherwise. On the
  edit page the value is the merged one and the error is the 4-digit message.
\<close>

theorem malformed_year_is_rejected:
  "(vintage_year f \<noteq> [] \<and> \<not> test_4digit (vintage_year f) \<longrightarrow>
      vintage_year (NewFundPage_temp f) \<noteq> None \<and>
      vintage_year (NewFundPage_temp f) =
        (if trim (vintage_year f) = [] then Some ''Vintage Year is required.''
         else Some ''Vintage Year must be a 4-digit year.'')) \<and>
   (vintage_year (EditFundPage_validate_final g fund) \<noteq> [] \<and>
    \<not> test_4digit (vintage_year (EditFundPage_validate_final g fund)) \<longrightarrow>
      vintage_year (EditFundPage_temp g fund) = Some ''Vintage Year must be a 4-digit year.'')"
  by (simp add: NewFundPage_temp_vintage_year EditFundPage_temp_vintage_year Let_def)

theorem malformed_year_is_rejected_witness:
  "vintage_year (NewFundPage_temp (empty_form\<lparr>vintage_year := lit ''99''\<rparr>)) =
     Some ''Vintage Year must be a 4-digit year.'' \<and>
   vintage_year (NewFundPage_temp (empty_form\<lparr>vintage_year := lit ''abcd''\<rparr>)) =
     Some ''Vintage Year must be a 4-digit year.'' \<and>
   vintage_year (NewFundPage_temp (empty_form\<lparr>vintage_year := lit ''20245''\<rparr>)) =
     Some ''Vintage Year must be a 4-digit year.'' \<and>
   vintage_year (EditFundPage_temp (empty_form\<lparr>vintage_year := lit ''99''\<rparr>) None) =
     Some ''Vintage Year must be a 4-digit year.'' \<and>
   vintage_year (EditFundPage_temp (empty_form\<lparr>vintage_year := lit ''abcd''\<rparr>) None) =
     Some ''Vintage Year must be a 4-digit year.'' \<and>
   vintage_year (EditFundPage_temp empty_form
     (Some \<lparr>name = None, gp_name = None, fund_type = None, vintage_year = Some 20245\<rparr>)) =
     Some ''Vintage Year must be a 4-digit year.''"
proof -
  let ?a = "empty_form\<lparr>vintage_year := lit ''99''\<rparr>"
  let ?b = "empty_form\<lparr>vintage_year := lit ''abcd''\<rparr>"
  let ?c = "empty_form\<lparr>vintage_year := lit ''20245''\<rparr>"
  let ?fund = "Some \<lparr>name = None, gp_name = None, fund_type = None,
    vintage_year = Some (20245::int)\<rparr> :: fund_record option"
  have ha: "vintage_year ?a \<noteq> [] \<and> \<not> test_4digit (vintage_year ?a)"
    "trim (vintage_year ?a) \<noteq> []"
    by (simp_all add: string_eval)
  have hb: "vintage_year ?b \<noteq> [] \<and> \<not> test_4digit (vintage_year ?b)"
    "trim (vintage_year ?b) \<noteq> []"
    by (simp_all add: string_eval)
  have hc: "vintage_year ?c \<noteq> [] \<and> \<not> test_4digit (vintage_year ?c)"
    "trim (vintage_year ?c) \<noteq> []"
    by (simp_all add: string_eval)
  have ea: "vintage_year (EditFundPage_validate_final ?a None) \<noteq> [] \<and>
      \<not> test_4digit (vintage_year (EditFundPage_validate_final ?a None))"
    by (simp add: EditFundPage_validate_final_def js_or_string_def empty_form_def string_eval)
  have eb: "vintage_year (EditFundPage_validate_final ?b None) \<noteq> [] \<and>
      \<not> test_4digit (vintage_year (EditFundPage_validate_final ?b None))"
    by (simp add: EditFundPage_validate_final_def js_or_string_def empty_form_def string_eval)
  have ec: "vintage_year (EditFundPage_validate_final empty_form ?fund) \<noteq> [] \<and>
      \<not> test_4digit (vintage_year (EditFundPage_validate_final empty_form ?fund))"
    by (simp add: EditFundPage_validate_final_def js_or_string_def empty_form_def string_eval)
  have "vintage_year (NewFundPage_temp ?a) = Some ''Vintage Year must be a 4-digit year.''"
    using malformed_year_is_rejected [of ?a ?a None] ha by presburger
  moreover have "vintage_year (NewFundPage_temp ?b) = Some ''Vintage Year must be a 4-digit year.''"
    using malformed_year_is_rejected [of ?b ?b None] hb by presburger
  moreover have "vintage_year (NewFundPage_temp ?c) = Some ''Vintage Year must be a 4-digit year.''"
    using malformed_year_is_rejected [of ?c ?c None] hc by presburger
  moreover have "vintage_year (EditFundPage_temp ?a None) =
      Some ''Vintage Year must be a 4-digit year.''"
    using malformed_year_is_rejected [of ?a ?a None] ea by blast
  moreover have "vintage_year (EditFundPage_temp ?b None) =
      Some ''Vintage Year must be a 4-digit year.''"
    using malformed_year_is_rejected [of ?b ?b None] eb by blast
  moreover have "vintage_year (EditFundPage_temp empty_form ?fund) =
      Some ''Vintage Year must be a 4-digit year.''"
    using malformed_year_is_rejected [of ?c empty_form ?fund] ec by blast
  ultimately show ?thesis by blast
qed

section \<open>The payload of the edit page\<close>

text \<open>
  C7. On the edit page, with the remote record
  \<^verbatim>\<open>{name:"Acme", gp_name:"G1", fund_type:"VC", vintage_year:2020}\<close> and the local form
  \<^verbatim>\<open>{name:"", gp_name:"G2", fund_type:"", vintage_year:""}\<close>, the object that
  \<^verbatim>\<open>handleSubmit\<close> builds is \<^verbatim>\<open>{name:"Acme", gp_name:"G2", fund_type:"VC", vintage_year:2020}\<close>;
  the form passes validation, and that object is what \<^verbatim>\<open>fundApi.update\<close> receives.
\<close>

theorem edit_fallback_payload:
  "EditFundPage_submit_final
     \<lparr>name = [], gp_name = lit ''G2'', fund_type = [], vintage_year = []\<rparr>
     (Some \<lparr>name = Some (lit ''Acme''), gp_name = Some (lit ''G1''),
            fund_type = Some (lit ''VC''), vintage_year = Some 2020\<rparr>) =
     \<lparr>name = Some (lit ''Acme''), gp_name = Some (lit ''G2''), fund_type = Some (lit ''VC''),
      vintage_year = Num 2020\<rparr> \<and>
   snd (EditFundPage_handleSubmit fundId
     (Some \<lparr>name = Some (lit ''Acme''), gp_name = Some (lit ''G1''),
            fund_type = Some (lit ''VC''), vintage_year = Some 2020\<rparr>)
     Resolved
     \<lparr>form = \<lparr>name = [], gp_name = lit ''G2'', fund_type = [], vintage_year = []\<rparr>,
      errors = previous, loading = False\<rparr>) =
     [PreventDefault, SetLoading True,
      ApiUpdate fundId
        \<lparr>name = Some (lit ''Acme''), gp_name = Some (lit ''G2''), fund_type = Some (lit ''VC''),
         vintage_year = Num 2020\<rparr>,
      SetLocationHref ''/funds'', SetLoading False]"
proof -
  let ?f = "\<lparr>name = [], gp_name = lit ''G2'', fund_type = [], vintage_year = []\<rparr> :: form_state"
  let ?fund = "Some \<lparr>name = Some (lit ''Acme''), gp_name = Some (lit ''G1''),
            fund_type = Some (lit ''VC''), vintage_year = Some (2020::int)\<rparr>"
  let ?st = "\<lparr>form = ?f, errors = previous, loading = False\<rparr>"
  have p: "EditFundPage_submit_final ?f ?fund =
      \<lparr>name = Some (lit ''Acme''), gp_name = Some (lit ''G2''), fund_type = Some (lit ''VC''),
       vintage_year = Num 2020\<rparr>"
    by (simp add: EditFundPage_submit_final_def EditFundPage_submit_year_def js_or_def
        js_or_string_def string_eval)
  have v: "fst (EditFundPage_validate ?fund ?st)"
    by (simp add: EditFundPage_validate_simps Object_keys_Nil EditFundPage_temp_fields
        EditFundPage_validate_final_def js_or_def js_or_string_def string_eval)
  show ?thesis
    using p by (simp add: EditFundPage_handleSubmit_valid(1)[OF v])
qed

theorem edit_fallback_payload_witness:
  "vintage_year (EditFundPage_submit_final
     \<lparr>name = [], gp_name = lit ''G2'', fund_type = [], vintage_year = []\<rparr>
     (Some \<lparr>name = Some (lit ''Acme''), gp_name = Some (lit ''G1''),
            fund_type = Some (lit ''VC''), vintage_year = Some 2020\<rparr>)) = Num 2020"
  using edit_fallback_payload [of NaN empty_object] by simp

section \<open>Typing into a field\<close>

text \<open>
  C8. On both pages, for each of the four inputs and every value, \<^verbatim>\<open>handleChange\<close> sets
  the property of that input to the value as it is, leaves the three other properties of
  the form as they were, and changes neither the errors nor the loading flag. It has no
  failing path.
\<close>

theorem handleChange_sets_one_field:
  "value_of (form (NewFundPage_handleChange fld v st)) fld' =
     (if fld' = fld then v else value_of (form st) fld') \<and>
   errors (NewFundPage_handleChange fld v st) = errors st \<and>
   loading (NewFundPage_handleChange fld v st) = loading st \<and>
   value_of (form (EditFundPage_handleChange fld v st)) fld' =
     (if fld' = fld then v else value_of (form st) fld') \<and>
   errors (EditFundPage_handleChange fld v st) = errors st \<and>
   loading (EditFundPage_handleChange fld v st) = loading st"
  by (cases fld; cases fld')
    (simp_all add: NewFundPage_handleChange_def EditFundPage_handleChange_def)

theorem handleChange_sets_one_field_witness:
  "gp_name (form (NewFundPage_handleChange GpName (lit '' G 1 '') initial_page)) = lit '' G 1 '' \<and>
   name (form (NewFundPage_handleChange GpName (lit '' G 1 '') initial_page)) = [] \<and>
   errors (NewFundPage_handleChange GpName (lit '' G 1 '') initial_page) = empty_object \<and>
   vintage_year (form (EditFundPage_handleChange VintageYear (lit ''20x'') initial_page)) =
     lit ''20x'' \<and>
   fund_type (form (EditFundPage_handleChange VintageYear (lit ''20x'') initial_page)) = [] \<and>
   loading (EditFundPage_handleChange VintageYear (lit ''20x'') initial_page) = False"
  using handleChange_sets_one_field [of GpName "lit '' G 1 ''" initial_page GpName]
    handleChange_sets_one_field [of GpName "lit '' G 1 ''" initial_page Name]
    handleChange_sets_one_field [of VintageYear "lit ''20x''" initial_page VintageYear]
    handleChange_sets_one_field [of VintageYear "lit ''20x''" initial_page FundType]
  by (simp add: initial_page_def empty_form_def)

section \<open>White space around the year, and the number that is submitted\<close>

text \<open>
  C9, as the pages have it. Take a local year whose trimmed form has four digits and
  which itself carries white space at an end. On the create page \<^verbatim>\<open>validate\<close> reports the
  4-digit message, since it tests the pattern on the value as typed. On the edit page
  \<^verbatim>\<open>validate\<close> tests the trimmed value and never reports the 4-digit message for it: it
  accepts the value when the year is at least 1900 and reports that the year must be
  greater than 1900 otherwise.
\<close>

theorem padded_year_create_versus_edit:
  assumes "test_4digit (trim (vintage_year f))" and "trim (vintage_year f) \<noteq> vintage_year f"
  shows "vintage_year (NewFundPage_temp f) = Some ''Vintage Year must be a 4-digit year.'' \<and>
    (\<exists>n. parseInt (trim (vintage_year f)) = Num n \<and>
         vintage_year (EditFundPage_temp f fund) =
           (if n < 1900 then Some ''Vintage Year must be greater than 1900.'' else None))"
proof -
  have ne: "trim (vintage_year f) \<noteq> []"
    using assms(1) by (rule test_4digit_not_Nil)
  have "\<not> test_4digit (vintage_year f)"
    using assms(2) trim_4digit by blast
  then have c: "vintage_year (NewFundPage_temp f) = Some ''Vintage Year must be a 4-digit year.''"
    using ne by (simp add: NewFundPage_temp_vintage_year)
  have v: "vintage_year (EditFundPage_validate_final f fund) = trim (vintage_year f)"
    using ne by (simp add: EditFundPage_validate_final_def js_or_string_def)
  from js_less_4digit[OF assms(1)] obtain n
    where n: "parseInt (trim (vintage_year f)) = Num n"
      "js_less (parseInt (trim (vintage_year f))) (Num 1900) = (n < 1900)"
    by blast
  have "vintage_year (EditFundPage_temp f fund) =
      (if n < 1900 then Some ''Vintage Year must be greater than 1900.'' else None)"
    using assms(1) ne n(2) by (simp add: EditFundPage_temp_vintage_year v Let_def)
  with c n(1) show ?thesis by blast
qed

theorem padded_year_create_versus_edit_witness:
  "test_4digit (trim (vintage_year (empty_form\<lparr>vintage_year := lit '' 2024''\<rparr>))) \<and>
   trim (vintage_year (empty_form\<lparr>vintage_year := lit '' 2024''\<rparr>)) \<noteq>
     vintage_year (empty_form\<lparr>vintage_year := lit '' 2024''\<rparr>) \<and>
   vintage_year (NewFundPage_temp (empty_form\<lparr>vintage_year := lit '' 2024''\<rparr>)) =
     Some ''Vintage Year must be a 4-digit year.'' \<and>
   vintage_year (EditFundPage_temp (empty_form\<lparr>vintage_year := lit '' 2024''\<rparr>) None) = None"
proof -
  let ?f = "empty_form\<lparr>vintage_year := lit '' 2024''\<rparr>"
  have t: "trim (vintage_year ?f) = lit ''2024''"
    by (simp add: string_eval)
  have h1: "test_4digit (trim (vintage_year ?f))"
    unfolding t by (simp add: string_eval)
  have h2: "trim (vintage_year ?f) \<noteq> vintage_year ?f"
    by (simp add: string_eval)
  have p: "parseInt (lit ''2024'') = Num 2024"
    by (simp add: string_eval)
  from padded_year_create_versus_edit [OF h1 h2, of None] obtain n
    where c: "vintage_year (NewFundPage_temp ?f) = Some ''Vintage Year must be a 4-digit year.''"
      and n: "parseInt (trim (vintage_year ?f)) = Num n"
      and e: "vintage_year (EditFundPage_temp ?f None) =
        (if n < 1900 then Some ''Vintage Year must be greater than 1900.'' else None)"
    by blast
  from n have "n = 2024" unfolding t p by simp
  with e have "vintage_year (EditFundPage_temp ?f None) = None" by simp
  with h1 h2 c show ?thesis by blast
qed

text \<open>
  The edit page does not accept every such value: a year typed as \<^verbatim>\<open>1800\<close> after a space
  has four digits once trimmed, is refused by the create page for its format, and is
  refused by the edit page for being below 1900.
\<close>

theorem padded_year_edit_accepts_counterexample:
  "test_4digit (trim (lit '' 1800'')) \<and>
   trim (lit '' 1800'') \<noteq> lit '' 1800'' \<and>
   vintage_year (NewFundPage_temp (empty_form\<lparr>vintage_year := lit '' 1800''\<rparr>)) =
     Some ''Vintage Year must be a 4-digit year.'' \<and>
   vintage_year (EditFundPage_temp (empty_form\<lparr>vintage_year := lit '' 1800''\<rparr>) None) =
     Some ''Vintage Year must be greater than 1900.''"
  by (simp add: NewFundPage_temp_vintage_year EditFundPage_temp_vintage_year
      EditFundPage_validate_final_def js_or_string_def empty_form_def string_eval)

lemma EditFundPage_valid_year:
  assumes "fst (EditFundPage_validate fund st)"
  shows "test_4digit (vintage_year (EditFundPage_validate_final (form st) fund))"
    and "\<not> js_less (parseInt (vintage_year (EditFundPage_validate_final (form st) fund))) (Num 1900)"
proof -
  have "vintage_year (EditFundPage_temp (form st) fund) = None"
    using assms by (simp add: EditFundPage_validate_simps Object_keys_Nil)
  then show "test_4digit (vintage_year (EditFundPage_validate_final (form st) fund))"
    and "\<not> js_less (parseInt (vintage_year (EditFundPage_validate_final (form st) fund))) (Num 1900)"
    by (simp_all add: EditFundPage_temp_vintage_year Let_def split: if_splits)
qed

lemma EditFundPage_submit_year_eq:
  "vintage_year (EditFundPage_validate_final f fund) \<noteq> [] \<Longrightarrow>
   EditFundPage_submit_year f fund = vintage_year (EditFundPage_validate_final f fund)"
  by (auto simp: EditFundPage_validate_final_def EditFundPage_submit_year_def js_or_string_def
      split: option.splits if_splits)

text \<open>
  C10. On both pages, once \<^verbatim>\<open>validate\<close> has returned true, the string that
  \<^verbatim>\<open>handleSubmit\<close> hands to \<^verbatim>\<open>parseInt\<close> has exactly four digits, and on the edit page it
  is the very string that was validated. The year in the payload is therefore an integer
  from 0 to 9999 and never NaN.
\<close>

theorem submitted_year_is_a_4digit_integer:
  "(fst (NewFundPage_validate st) \<longrightarrow>
      test_4digit (vintage_year (form st)) \<and>
      (\<exists>n. vintage_year (NewFundPage_payload (form st)) = Num n \<and> 0 \<le> n \<and> n \<le> 9999)) \<and>
   (fst (EditFundPage_validate fund st) \<longrightarrow>
      EditFundPage_submit_year (form st) fund =
        vintage_year (EditFundPage_validate_final (form st) fund) \<and>
      test_4digit (EditFundPage_submit_year (form st) fund) \<and>
      (\<exists>n. vintage_year (EditFundPage_submit_final (form st) fund) = Num n \<and>
           0 \<le> n \<and> n \<le> 9999))"
proof (intro conjI impI)
  assume a: "fst (NewFundPage_validate st)"
  show "test_4digit (vintage_year (form st))"
    using a by (rule NewFundPage_valid_year)
  then show "\<exists>n. vintage_year (NewFundPage_payload (form st)) = Num n \<and> 0 \<le> n \<and> n \<le> 9999"
    using parseInt_4digit_range by (simp add: NewFundPage_payload_def)
next
  assume a: "fst (EditFundPage_validate fund st)"
  have d: "test_4digit (vintage_year (EditFundPage_validate_final (form st) fund))"
    using a by (rule EditFundPage_valid_year(1))
  show e: "EditFundPage_submit_year (form st) fund =
      vintage_year (EditFundPage_validate_final (form st) fund)"
    using test_4digit_not_Nil[OF d] by (rule EditFundPage_submit_year_eq)
  show "test_4digit (EditFundPage_submit_year (form st) fund)"
    using d e by simp
  then show "\<exists>n. vintage_year (EditFundPage_submit_final (form st) fund) = Num n \<and>
      0 \<le> n \<and> n \<le> 9999"
    using parseInt_4digit_range by (simp add: EditFundPage_submit_final_def)
qed

theorem submitted_year_is_a_4digit_integer_witness:
  "fst (NewFundPage_validate
     \<lparr>form = \<lparr>name = lit ''Acme'', gp_name = lit ''G1'', fund_type = lit ''VC'',
              vintage_year = lit ''0007''\<rparr>,
      errors = empty_object, loading = False\<rparr>) \<and>
   test_4digit (lit ''0007'') \<and>
   vintage_year (NewFundPage_payload
     \<lparr>name = lit ''Acme'', gp_name = lit ''G1'', fund_type = lit ''VC'',
      vintage_year = lit ''0007''\<rparr>) = Num 7 \<and>
   fst (EditFundPage_validate
     (Some \<lparr>name = Some (lit ''Acme''), gp_name = Some (lit ''G1''),
            fund_type = Some (lit ''VC''), vintage_year = Some 2020\<rparr>)
     initial_page) \<and>
   EditFundPage_submit_year (form initial_page)
     (Some \<lparr>name = Some (lit ''Acme''), gp_name = Some (lit ''G1''),
            fund_type = Some (lit ''VC''), vintage_year = Some 2020\<rparr>) = lit ''2020'' \<and>
   test_4digit (EditFundPage_submit_year (form initial_page)
     (Some \<lparr>name = Some (lit ''Acme''), gp_name = Some (lit ''G1''),
            fund_type = Some (lit ''VC''), vintage_year = Some 2020\<rparr>))"
proof -
  let ?st = "\<lparr>form = \<lparr>name = lit ''Acme'', gp_name = lit ''G1'', fund_type = lit ''VC'',
              vintage_year = lit ''0007''\<rparr>, errors = empty_object, loading = False\<rparr>"
  let ?fund = "Some \<lparr>name = Some (lit ''Acme''), gp_name = Some (lit ''G1''),
            fund_type = Some (lit ''VC''), vintage_year = Some (2020::int)\<rparr>"
  have v: "fst (NewFundPage_validate ?st)"
    by (simp add: NewFundPage_validate_simps Object_keys_Nil NewFundPage_temp_fields string_eval)
  have p: "vintage_year (NewFundPage_payload (form ?st)) = Num 7"
    by (simp add: NewFundPage_payload_def string_eval)
  have w: "fst (EditFundPage_validate ?fund initial_page)"
    by (simp add: EditFundPage_validate_simps Object_keys_Nil EditFundPage_temp_fields
        EditFundPage_validate_final_def js_or_def js_or_string_def initial_page_def
        empty_form_def string_eval)
  have y: "vintage_year (EditFundPage_validate_final (form initial_page) ?fund) = lit ''2020''"
    by (simp add: EditFundPage_validate_final_def js_or_string_def initial_page_def
        empty_form_def string_eval)
  from submitted_year_is_a_4digit_integer [of initial_page ?fund] w
  have "EditFundPage_submit_year (form initial_page) ?fund =
      vintage_year (EditFundPage_validate_final (form initial_page) ?fund)"
    and t: "test_4digit (EditFundPage_submit_year (form initial_page) ?fund)"
    by blast+
  then have s: "EditFundPage_submit_year (form initial_page) ?fund = lit ''2020''"
    unfolding y by simp
  from submitted_year_is_a_4digit_integer [of ?st None] v
  have "test_4digit (vintage_year (form ?st))"
    by blast
  then have "test_4digit (lit ''0007'')"
    by simp
  with v p w t s show ?thesis by simp
qed

section \<open>What the create page sends\<close>

text \<open>
  What holds of the create page in every state that passes validation:
  \<^verbatim>\<open>handleSubmit\<close> calls \<^verbatim>\<open>fundApi.create\<close> exactly once and makes no other call; the
  payload carries \<^verbatim>\<open>name\<close>, \<^verbatim>\<open>gp_name\<close> and \<^verbatim>\<open>fund_type\<close> as they were typed, and its
  year is \<^verbatim>\<open>parseInt\<close> of the local value, which has no white space of its own. When the
  call resolves the page navigates to \<^verbatim>\<open>/funds\<close>. When it rejects, the form is
  unchanged, one alert with the failure message is shown and there is no navigation.
\<close>

lemma create_submit_effects:
  assumes "fst (NewFundPage_validate st)"
  shows "filter is_api_call (snd (NewFundPage_handleSubmit outcome st)) =
      [ApiCreate \<lparr>name = Some (name (form st)), gp_name = Some (gp_name (form st)),
         fund_type = Some (fund_type (form st)),
         vintage_year = parseInt (vintage_year (form st))\<rparr>] \<and>
    trim (vintage_year (form st)) = vintage_year (form st) \<and>
    filter is_navigation (snd (NewFundPage_handleSubmit Resolved st)) =
      [SetLocationHref ''/funds''] \<and>
    form (fst (NewFundPage_handleSubmit (Rejected err) st)) = form st \<and>
    filter is_alert (snd (NewFundPage_handleSubmit (Rejected err) st)) =
      [Alert ''Failed to create fund. Please try again.''] \<and>
    filter is_navigation (snd (NewFundPage_handleSubmit (Rejected err) st)) = []"
proof -
  have call: "filter is_api_call (snd (NewFundPage_handleSubmit outcome st)) =
      [ApiCreate (NewFundPage_payload (form st))]"
    by (cases outcome) (simp_all add: NewFundPage_handleSubmit_valid[OF assms])
  have year: "trim (vintage_year (form st)) = vintage_year (form st)"
    using NewFundPage_valid_year[OF assms] by (rule trim_4digit)
  show ?thesis
    using call year by (simp add: NewFundPage_handleSubmit_valid[OF assms] NewFundPage_payload_def)
qed

text \<open>
  C2. A valid create form is to trigger exactly one \<^verbatim>\<open>create\<close> call whose \<^verbatim>\<open>name\<close>,
  \<^verbatim>\<open>gp_name\<close> and \<^verbatim>\<open>fund_type\<close> are the trimmed local values. The create page does make
  exactly one call, but with the values as typed: the form with the name \<^verbatim>\<open>Acme\<close> typed
  after a space passes validation, and the one call that \<^verbatim>\<open>handleSubmit\<close> makes carries
  the name with its space, which is not the trimmed name. The edit page, given the same
  local form, puts the trimmed name into its payload.
\<close>

theorem create_payload_keeps_typed_space:
  "fst (NewFundPage_validate
     \<lparr>form = \<lparr>name = lit '' Acme'', gp_name = lit ''G1'', fund_type = lit ''VC'',
              vintage_year = lit ''2024''\<rparr>,
      errors = empty_object, loading = False\<rparr>) \<and>
   snd (NewFundPage_handleSubmit Resolved
     \<lparr>form = \<lparr>name = lit '' Acme'', gp_name = lit ''G1'', fund_type = lit ''VC'',
              vintage_year = lit ''2024''\<rparr>,
      errors = empty_object, loading = False\<rparr>) =
     [PreventDefault, SetLoading True,
      ApiCreate \<lparr>name = Some (lit '' Acme''), gp_name = Some (lit ''G1''),
        fund_type = Some (lit ''VC''), vintage_year = Num 2024\<rparr>,
      SetLocationHref ''/funds'', SetLoading False] \<and>
   trim (lit '' Acme'') = lit ''Acme'' \<and>
   lit '' Acme'' \<noteq> trim (lit '' Acme'') \<and>
   name (EditFundPage_submit_final
     \<lparr>name = lit '' Acme'', gp_name = lit ''G1'', fund_type = lit ''VC'',
      vintage_year = lit ''2024''\<rparr> None) = Some (lit ''Acme'')"
proof -
  let ?st = "\<lparr>form = \<lparr>name = lit '' Acme'', gp_name = lit ''G1'', fund_type = lit ''VC'',
              vintage_year = lit ''2024''\<rparr>, errors = empty_object, loading = False\<rparr>"
  have v: "fst (NewFundPage_validate ?st)"
    by (simp add: NewFundPage_validate_simps Object_keys_Nil NewFundPage_temp_fields string_eval)
  have p: "parseInt (lit ''2024'') = Num 2024"
    by (simp add: string_eval)
  have t: "trim (lit '' Acme'') = lit ''Acme''" "lit '' Acme'' \<noteq> trim (lit '' Acme'')"
    by (simp_all add: string_eval)
  have e: "name (EditFundPage_submit_final (form ?st) None) = Some (lit ''Acme'')"
    by (simp add: EditFundPage_submit_final_def js_or_def string_eval)
  show ?thesis
    using v p t e by (simp add: NewFundPage_handleSubmit_valid(1)[OF v] NewFundPage_payload_def)
qed

section \<open>The two merges of the edit page\<close>

lemma js_or_trim: "map_option trim (js_or (trim a) b) = js_or (trim a) (map_option trim b)"
  by (simp add: js_or_def trim_idem)

text \<open>
  How far the two merges of the edit page agree, for every form and every remote
  record. The name that \<^verbatim>\<open>validate\<close> merges is the trimmed form of the name that
  \<^verbatim>\<open>handleSubmit\<close> merges, and likewise for \<^verbatim>\<open>gp_name\<close> and \<^verbatim>\<open>fund_type\<close>; the two are the
  same value when the local field is not blank. The year string that \<^verbatim>\<open>validate\<close>
  merges, when it is not empty, is the string that \<^verbatim>\<open>handleSubmit\<close> hands to
  \<^verbatim>\<open>parseInt\<close>.
\<close>

lemma edit_merges_agree_up_to_trim:
  "name (EditFundPage_validate_final f fund) =
     map_option trim (name (EditFundPage_submit_final f fund)) \<and>
   gp_name (EditFundPage_validate_final f fund) =
     map_option trim (gp_name (EditFundPage_submit_final f fund)) \<and>
   fund_type (EditFundPage_validate_final f fund) =
     map_option trim (fund_type (EditFundPage_submit_final f fund)) \<and>
   (trim (name f) \<noteq> [] \<longrightarrow>
      name (EditFundPage_validate_final f fund) = name (EditFundPage_submit_final f fund)) \<and>
   (trim (gp_name f) \<noteq> [] \<longrightarrow>
      gp_name (EditFundPage_validate_final f fund) =
      gp_name (EditFundPage_submit_final f fund)) \<and>
   (trim (fund_type f) \<noteq> [] \<longrightarrow>
      fund_type (EditFundPage_validate_final f fund) =
      fund_type (EditFundPage_submit_final f fund)) \<and>
   (vintage_year (EditFundPage_validate_final f fund) \<noteq> [] \<longrightarrow>
      EditFundPage_submit_year f fund = vintage_year (EditFundPage_validate_final f fund))"
proof (intro conjI impI)
  show "name (EditFundPage_validate_final f fund) =
      map_option trim (name (EditFundPage_submit_final f fund))"
    by (cases fund) (simp_all add: EditFundPage_validate_final_def EditFundPage_submit_final_def
        js_or_trim)
  show "gp_name (EditFundPage_validate_final f fund) =
      map_option trim (gp_name (EditFundPage_submit_final f fund))"
    by (cases fund) (simp_all add: EditFundPage_validate_final_def EditFundPage_submit_final_def
        js_or_trim)
  show "fund_type (EditFundPage_validate_final f fund) =
      map_option trim (fund_type (EditFundPage_submit_final f fund))"
    by (cases fund) (simp_all add: EditFundPage_validate_final_def EditFundPage_submit_final_def
        js_or_trim)
next
  assume "trim (name f) \<noteq> []"
  then show "name (EditFundPage_validate_final f fund) = name (EditFundPage_submit_final f fund)"
    by (simp add: EditFundPage_validate_final_def EditFundPage_submit_final_def js_or_def)
next
  assume "trim (gp_name f) \<noteq> []"
  then show "gp_name (EditFundPage_validate_final f fund) =
      gp_name (EditFundPage_submit_final f fund)"
    by (simp add: EditFundPage_validate_final_def EditFundPage_submit_final_def js_or_def)
next
  assume "trim (fund_type f) \<noteq> []"
  then show "fund_type (EditFundPage_validate_final f fund) =
      fund_type (EditFundPage_submit_final f fund)"
    by (simp add: EditFundPage_validate_final_def EditFundPage_submit_final_def js_or_def)
next
  assume "vintage_year (EditFundPage_validate_final f fund) \<noteq> []"
  then show "EditFundPage_submit_year f fund = vintage_year (EditFundPage_validate_final f fund)"
    by (auto simp: EditFundPage_validate_final_def EditFundPage_submit_year_def js_or_string_def
        split: option.splits if_splits)
qed

text \<open>
  An unedited name goes into the payload as the remote record holds it, untrimmed, while
  \<^verbatim>\<open>validate\<close> looks at its trimmed form.
\<close>

lemma edit_unedited_name_merges:
  assumes "trim (name f) = []"
  shows "name (EditFundPage_submit_final f (Some fd)) = name fd"
    and "name (EditFundPage_validate_final f (Some fd)) = map_option trim (name fd)"
  using assms
  by (simp_all add: EditFundPage_submit_final_def EditFundPage_validate_final_def js_or_def)

text \<open>
  C3. On the edit page the merge of the validation pass and the merge of the submission
  pass are to be the same function of the form and the remote record. They are not.
  With an untouched form and a remote name that begins with a space, \<^verbatim>\<open>validate\<close> merges
  the trimmed name and returns true, and \<^verbatim>\<open>handleSubmit\<close> merges the name with its
  space and sends it. With no remote year, \<^verbatim>\<open>validate\<close> merges the empty string and
  \<^verbatim>\<open>handleSubmit\<close> would parse the word \<^verbatim>\<open>undefined\<close>.
\<close>

theorem edit_merges_differ_on_padded_remote:
  "fst (EditFundPage_validate
     (Some \<lparr>name = Some (lit '' Acme''), gp_name = Some (lit ''G1''),
            fund_type = Some (lit ''VC''), vintage_year = Some 2020\<rparr>)
     initial_page) \<and>
   name (EditFundPage_validate_final (form initial_page)
     (Some \<lparr>name = Some (lit '' Acme''), gp_name = Some (lit ''G1''),
            fund_type = Some (lit ''VC''), vintage_year = Some 2020\<rparr>)) = Some (lit ''Acme'') \<and>
   name (EditFundPage_submit_final (form initial_page)
     (Some \<lparr>name = Some (lit '' Acme''), gp_name = Some (lit ''G1''),
            fund_type = Some (lit ''VC''), vintage_year = Some 2020\<rparr>)) = Some (lit '' Acme'') \<and>
   lit ''Acme'' \<noteq> lit '' Acme'' \<and>
   snd (EditFundPage_handleSubmit (Num 7)
     (Some \<lparr>name = Some (lit '' Acme''), gp_name = Some (lit ''G1''),
            fund_type = Some (lit ''VC''), vintage_year = Some 2020\<rparr>)
     Resolved initial_page) =
     [PreventDefault, SetLoading True,
      ApiUpdate (Num 7)
        \<lparr>name = Some (lit '' Acme''), gp_name = Some (lit ''G1''), fund_type = Some (lit ''VC''),
         vintage_year = Num 2020\<rparr>,
      SetLocationHref ''/funds'', SetLoading False] \<and>
   vintage_year (EditFundPage_validate_final (form initial_page) None) = [] \<and>
   EditFundPage_submit_year (form initial_page) None = lit ''undefined''"
proof -
  let ?fund = "Some \<lparr>name = Some (lit '' Acme''), gp_name = Some (lit ''G1''),
            fund_type = Some (lit ''VC''), vintage_year = Some (2020::int)\<rparr>"
  have v: "fst (EditFundPage_validate ?fund initial_page)"
    by (simp add: EditFundPage_validate_simps Object_keys_Nil EditFundPage_temp_fields
        EditFundPage_validate_final_def js_or_def js_or_string_def initial_page_def
        empty_form_def string_eval)
  have a: "name (EditFundPage_validate_final (form initial_page) ?fund) = Some (lit ''Acme'')"
    by (simp add: EditFundPage_validate_final_def js_or_def initial_page_def empty_form_def
        string_eval)
  have p: "EditFundPage_submit_final (form initial_page) ?fund =
      \<lparr>name = Some (lit '' Acme''), gp_name = Some (lit ''G1''), fund_type = Some (lit ''VC''),
       vintage_year = Num 2020\<rparr>"
    by (simp add: EditFundPage_submit_final_def EditFundPage_submit_year_def js_or_def
        js_or_string_def initial_page_def empty_form_def string_eval)
  have d: "lit ''Acme'' \<noteq> lit '' Acme''"
    by (simp add: lit_def)
  have y: "vintage_year (EditFundPage_validate_final (form initial_page) None) = []"
    "EditFundPage_submit_year (form initial_page) None = lit ''undefined''"
    by (simp_all add: EditFundPage_validate_final_def EditFundPage_submit_year_def
        js_or_string_def initial_page_def empty_form_def trim_Nil)
  show ?thesis
    using v a d y by (simp add: EditFundPage_handleSubmit_valid(1)[OF v] p)
qed

section \<open>The error object against the rules of the specification\<close>

lemma not_4digit_zero: "\<not> test_4digit (Number_toString 0)"
  by (simp add: string_eval)

lemma spec_at_least_1900_4digit:
  "test_4digit s \<Longrightarrow> spec_at_least_1900 s = (\<not> js_less (parseInt s) (Num 1900))"
  using js_less_4digit[of s] by (auto simp: spec_at_least_1900_def)

lemma spec_year_rule_edit:
  "spec_year_rule True (Some s) =
     (s \<noteq> [] \<and> test_4digit s \<and> \<not> js_less (parseInt s) (Num 1900))"
  using spec_at_least_1900_4digit[of s] trim_4digit[of s] test_4digit_not_Nil[of s]
  by (auto simp: spec_year_rule_def spec_required_def)

lemma spec_year_rule_create:
  "spec_year_rule False (Some s) = (trim s \<noteq> [] \<and> test_4digit s)"
  by (simp add: spec_year_rule_def spec_required_def)

lemma spec_year_rule_None: "spec_year_rule edit None = False"
  by (simp add: spec_year_rule_def)

lemma spec_required_local:
  "spec_required (spec_resolve local None) = (trim local \<noteq> [])"
  by (simp add: spec_required_def spec_resolve_def spec_unedited_def trim_idem)

lemma create_year_iff:
  "(vintage_year (NewFundPage_temp f) \<noteq> None) =
     (\<not> spec_rule False VintageYear f None \<or> trim (vintage_year f) \<noteq> vintage_year f)"
proof (cases "trim (vintage_year f) = []")
  case True
  then show ?thesis
    by (simp add: NewFundPage_temp_vintage_year spec_resolve_def spec_unedited_def
        spec_year_rule_None)
next
  case False
  have r: "spec_rule False VintageYear f None = test_4digit (trim (vintage_year f))"
    using False
    by (simp add: spec_resolve_def spec_unedited_def spec_year_rule_create trim_idem)
  show ?thesis
  proof (cases "test_4digit (vintage_year f)")
    case True
    then have "trim (vintage_year f) = vintage_year f" by (rule trim_4digit)
    then show ?thesis
      using True False by (simp add: NewFundPage_temp_vintage_year r del: spec_rule.simps)
  next
    case n: False
    have "\<not> test_4digit (trim (vintage_year f)) \<or> trim (vintage_year f) \<noteq> vintage_year f"
      using n by auto
    then show ?thesis
      using n False by (simp add: NewFundPage_temp_vintage_year r del: spec_rule.simps)
  qed
qed

lemma create_key_iff_rule:
  "(error_of (NewFundPage_temp f) fld \<noteq> None) =
     (\<not> spec_rule False fld f None \<or>
      (fld = VintageYear \<and> trim (vintage_year f) \<noteq> vintage_year f))"
proof (cases fld)
  case VintageYear
  then show ?thesis using create_year_iff[of f] by simp
qed (simp_all add: NewFundPage_temp_fields spec_required_local)

lemma edit_required_iff:
  "js_not (js_or (trim local) (map_option trim remote)) =
     (\<not> spec_required (spec_resolve local remote))"
  by (cases remote)
    (simp_all add: js_or_def spec_required_def spec_resolve_def spec_unedited_def trim_idem)

lemma edit_year_iff:
  "(vintage_year (EditFundPage_temp f fund) \<noteq> None) = (\<not> spec_rule True VintageYear f fund)"
proof (cases "trim (vintage_year f) = []")
  case False
  then have v: "vintage_year (EditFundPage_validate_final f fund) = trim (vintage_year f)"
    by (simp add: EditFundPage_validate_final_def js_or_string_def)
  show ?thesis
    using False
    by (auto simp: EditFundPage_temp_vintage_year v spec_resolve_def spec_unedited_def
        spec_year_rule_edit Let_def)
next
  case True
  show ?thesis
  proof (cases "case fund of None \<Rightarrow> None | Some fd \<Rightarrow> vintage_year fd")
    case None
    then have v: "vintage_year (EditFundPage_validate_final f fund) = []"
      using True by (simp add: EditFundPage_validate_final_def js_or_string_def)
    have "spec_resolve (vintage_year f)
        (case fund of None \<Rightarrow> None | Some fd \<Rightarrow> map_option Number_toString (vintage_year fd)) = None"
      using True None by (simp add: spec_resolve_def spec_unedited_def split: option.splits)
    then show ?thesis
      by (simp add: EditFundPage_temp_vintage_year v spec_year_rule_def)
  next
    case (Some n)
    then have r: "spec_resolve (vintage_year f)
        (case fund of None \<Rightarrow> None | Some fd \<Rightarrow> map_option Number_toString (vintage_year fd)) =
        Some (Number_toString n)"
      using True by (simp add: spec_resolve_def spec_unedited_def split: option.splits)
    show ?thesis
    proof (cases "n = 0")
      case True
      then have v: "vintage_year (EditFundPage_validate_final f fund) = []"
        using Some \<open>trim (vintage_year f) = []\<close>
        by (simp add: EditFundPage_validate_final_def js_or_string_def)
      show ?thesis
        using True not_4digit_zero
        by (simp add: EditFundPage_temp_vintage_year v r spec_year_rule_edit)
    next
      case False
      then have v: "vintage_year (EditFundPage_validate_final f fund) = Number_toString n"
        using Some \<open>trim (vintage_year f) = []\<close>
        by (simp add: EditFundPage_validate_final_def js_or_string_def)
      show ?thesis
        by (simp add: EditFundPage_temp_vintage_year v r spec_year_rule_edit Let_def)
    qed
  qed
qed

lemma edit_key_iff_rule:
  "(error_of (EditFundPage_temp f fund) fld \<noteq> None) = (\<not> spec_rule True fld f fund)"
proof (cases fld)
  case Name
  have "js_not (name (EditFundPage_validate_final f fund)) =
      (\<not> spec_required (spec_resolve (name f) (case fund of None \<Rightarrow> None | Some fd \<Rightarrow> name fd)))"
    using edit_required_iff[of "name f" "case fund of None \<Rightarrow> None | Some fd \<Rightarrow> name fd"]
    by (cases fund) (simp_all add: EditFundPage_validate_final_def)
  then show ?thesis using Name by (simp add: EditFundPage_temp_name)
next
  case GpName
  have "js_not (gp_name (EditFundPage_validate_final f fund)) =
      (\<not> spec_required (spec_resolve (gp_name f)
         (case fund of None \<Rightarrow> None | Some fd \<Rightarrow> gp_name fd)))"
    using edit_required_iff[of "gp_name f" "case fund of None \<Rightarrow> None | Some fd \<Rightarrow> gp_name fd"]
    by (cases fund) (simp_all add: EditFundPage_validate_final_def)
  then show ?thesis using GpName by (simp add: EditFundPage_temp_gp_name)
next
  case FundType
  have "js_not (fund_type (EditFundPage_validate_final f fund)) =
      (\<not> spec_required (spec_resolve (fund_type f)
         (case fund of None \<Rightarrow> None | Some fd \<Rightarrow> fund_type fd)))"
    using edit_required_iff[of "fund_type f"
        "case fund of None \<Rightarrow> None | Some fd \<Rightarrow> fund_type fd"]
    by (cases fund) (simp_all add: EditFundPage_validate_final_def)
  then show ?thesis using FundType by (simp add: EditFundPage_temp_fund_type)
next
  case VintageYear
  then show ?thesis using edit_year_iff[of f fund] by simp
qed

lemma Object_keys_Nil_error_of: "(Object_keys t = []) = (\<forall>fld. error_of t fld = None)"
proof -
  have "(\<forall>fld. error_of t fld = None) =
      (name t = None \<and> gp_name t = None \<and> fund_type t = None \<and> vintage_year t = None)"
  proof
    assume a: "\<forall>fld. error_of t fld = None"
    show "name t = None \<and> gp_name t = None \<and> fund_type t = None \<and> vintage_year t = None"
      using a[rule_format, of Name] a[rule_format, of GpName] a[rule_format, of FundType]
        a[rule_format, of VintageYear] by simp
  next
    assume a: "name t = None \<and> gp_name t = None \<and> fund_type t = None \<and> vintage_year t = None"
    show "\<forall>fld. error_of t fld = None"
    proof
      fix fld show "error_of t fld = None" using a by (cases fld) simp_all
    qed
  qed
  then show ?thesis by (simp add: Object_keys_Nil)
qed

text \<open>
  Where the pages agree with the rules. On the edit page, for every form and every
  remote record, the keys of the error object are exactly the fields whose rule fails.
  On the create page the same holds of the three names, and of the year whenever the
  typed year has no white space at its ends. On both pages the errors stored before
  have no influence on the errors stored after.
\<close>

lemma validate_key_sets:
  "set (Object_keys (EditFundPage_temp f fund)) = {fld. \<not> spec_rule True fld f fund} \<and>
   fst (EditFundPage_validate fund st) = (\<forall>fld. spec_rule True fld (form st) fund) \<and>
   errors (snd (EditFundPage_validate fund (st\<lparr>errors := previous\<rparr>))) =
     errors (snd (EditFundPage_validate fund st)) \<and>
   (trim (vintage_year f) = vintage_year f \<longrightarrow>
      set (Object_keys (NewFundPage_temp f)) = {fld. \<not> spec_rule False fld f None}) \<and>
   (fld \<noteq> VintageYear \<longrightarrow>
      (fld \<in> set (Object_keys (NewFundPage_temp f))) = (\<not> spec_rule False fld f None)) \<and>
   errors (snd (NewFundPage_validate (st\<lparr>errors := previous\<rparr>))) =
     errors (snd (NewFundPage_validate st))"
proof (intro conjI impI)
  show "set (Object_keys (EditFundPage_temp f fund)) = {fld. \<not> spec_rule True fld f fund}"
    by (simp only: set_Object_keys edit_key_iff_rule)
  have "(error_of (EditFundPage_temp (form st) fund) x = None) = spec_rule True x (form st) fund"
    for x
    using edit_key_iff_rule[of "form st" fund x] by blast
  then show "fst (EditFundPage_validate fund st) = (\<forall>fld. spec_rule True fld (form st) fund)"
    by (simp only: EditFundPage_validate_simps Object_keys_Nil_error_of)
  show "errors (snd (EditFundPage_validate fund (st\<lparr>errors := previous\<rparr>))) =
      errors (snd (EditFundPage_validate fund st))"
    by (simp add: EditFundPage_validate_simps)
  show "errors (snd (NewFundPage_validate (st\<lparr>errors := previous\<rparr>))) =
      errors (snd (NewFundPage_validate st))"
    by (simp add: NewFundPage_validate_simps)
next
  assume "trim (vintage_year f) = vintage_year f"
  then show "set (Object_keys (NewFundPage_temp f)) = {fld. \<not> spec_rule False fld f None}"
    by (simp only: set_Object_keys create_key_iff_rule simp_thms)
next
  assume "fld \<noteq> VintageYear"
  then show "(fld \<in> set (Object_keys (NewFundPage_temp f))) = (\<not> spec_rule False fld f None)"
    by (simp only: set_Object_keys create_key_iff_rule simp_thms mem_Collect_eq)
qed

text \<open>
  C5. The keys of the error object that \<^verbatim>\<open>validate\<close> builds are to be exactly the fields
  whose rule fails, and the object is to be empty exactly when every rule passes. The
  create page reports a field whose rule passes: with the three names filled in and the
  year \<^verbatim>\<open>2024\<close> typed after a space, the rule of every field passes, the year being
  four digits once trimmed, and yet \<^verbatim>\<open>validate\<close> stores the 4-digit message for the year
  and returns false. The edit page, given the same local form, stores no error.
\<close>

theorem create_validate_reports_padded_year:
  "spec_rule False Name
     \<lparr>name = lit ''Acme'', gp_name = lit ''G1'', fund_type = lit ''VC'',
      vintage_year = lit '' 2024''\<rparr> None \<and>
   spec_rule False GpName
     \<lparr>name = lit ''Acme'', gp_name = lit ''G1'', fund_type = lit ''VC'',
      vintage_year = lit '' 2024''\<rparr> None \<and>
   spec_rule False FundType
     \<lparr>name = lit ''Acme'', gp_name = lit ''G1'', fund_type = lit ''VC'',
      vintage_year = lit '' 2024''\<rparr> None \<and>
   spec_rule False VintageYear
     \<lparr>name = lit ''Acme'', gp_name = lit ''G1'', fund_type = lit ''VC'',
      vintage_year = lit '' 2024''\<rparr> None \<and>
   Object_keys (NewFundPage_temp
     \<lparr>name = lit ''Acme'', gp_name = lit ''G1'', fund_type = lit ''VC'',
      vintage_year = lit '' 2024''\<rparr>) = [VintageYear] \<and>
   vintage_year (NewFundPage_temp
     \<lparr>name = lit ''Acme'', gp_name = lit ''G1'', fund_type = lit ''VC'',
      vintage_year = lit '' 2024''\<rparr>) = Some ''Vintage Year must be a 4-digit year.'' \<and>
   \<not> fst (NewFundPage_validate
     \<lparr>form = \<lparr>name = lit ''Acme'', gp_name = lit ''G1'', fund_type = lit ''VC'',
              vintage_year = lit '' 2024''\<rparr>,
      errors = empty_object, loading = False\<rparr>) \<and>
   Object_keys (EditFundPage_temp
     \<lparr>name = lit ''Acme'', gp_name = lit ''G1'', fund_type = lit ''VC'',
      vintage_year = lit '' 2024''\<rparr> None) = []"
proof -
  let ?f = "\<lparr>name = lit ''Acme'', gp_name = lit ''G1'', fund_type = lit ''VC'',
      vintage_year = lit '' 2024''\<rparr>"
  have r: "spec_rule False Name ?f None" "spec_rule False GpName ?f None"
    "spec_rule False FundType ?f None" "spec_rule False VintageYear ?f None"
    by (simp_all add: spec_required_def spec_resolve_def spec_unedited_def spec_year_rule_def
        string_eval)
  have k: "Object_keys (NewFundPage_temp ?f) = [VintageYear]"
    by (simp add: Object_keys_def NewFundPage_temp_fields string_eval)
  have m: "vintage_year (NewFundPage_temp ?f) = Some ''Vintage Year must be a 4-digit year.''"
    by (simp add: NewFundPage_temp_vintage_year string_eval)
  have v: "\<not> fst (NewFundPage_validate \<lparr>form = ?f, errors = empty_object, loading = False\<rparr>)"
    by (simp add: NewFundPage_validate_simps k)
  have e: "Object_keys (EditFundPage_temp ?f None) = []"
    by (simp add: Object_keys_def EditFundPage_temp_fields EditFundPage_validate_final_def
        js_or_def js_or_string_def string_eval)
  show ?thesis
    using r k m v e by blast
qed

end
